theory Spec2Isabelle
  imports Complex_Main "HOL-Library.Log_Nat"
begin

section \<open>The Sudachi API client (ext/js/language/sudachi-api.js)\<close>

text \<open>
  The module is one class, \<^verbatim>\<open>SudachiApiClient\<close>, with the asynchronous method
  \<^verbatim>\<open>getJishokei\<close> and the helper \<^verbatim>\<open>_findTokenAtCursor\<close>. The model below follows the
  file statement by statement. The client object is a record that every call takes and
  returns; what the call does to the outside world (timer, request, log) is returned as a
  list of events; what the outside world does to the call (whether the timer or the
  response comes first, what the response holds, whether its body ever arrives) is an
  argument of the call.
\<close>

subsection \<open>JavaScript numbers\<close>

text \<open>
  A JavaScript number is an IEEE 754 binary64 value: \<open>Fin x\<close> is the finite value \<open>x\<close>
  (with \<open>Fin 0\<close> the positive zero), \<open>NegZero\<close> the negative zero, then the two infinities
  and \<^verbatim>\<open>NaN\<close>. A JSON number denotes the value nearest to its decimal text, so \<^verbatim>\<open>0.5\<close> is
  \<open>Fin (1 / 2)\<close> and \<^verbatim>\<open>1e999\<close> is \<open>PosInf\<close>.
\<close>

datatype double = Fin rat | NegZero | PosInf | NegInf | NaN

text \<open>
  Rounding of an exact result to binary64, to nearest with ties to even: 53 significant
  bits, the smallest step \<open>2 ^ - 1074\<close>, an infinity from \<open>2 ^ 1024\<close> on. \<open>ilog2 x\<close> is the
  exponent of the leading bit of \<open>x > 0\<close>.
\<close>

definition pow2 :: "int \<Rightarrow> rat" where
  "pow2 k = (if 0 \<le> k then 2 ^ nat k else 1 / 2 ^ nat (- k))"

definition ilog2 :: "rat \<Rightarrow> int" where
  "ilog2 x = (if 1 \<le> x then bitlen \<lfloor>x\<rfloor> - 1 else - bitlen (\<lceil>1 / x\<rceil> - 1))"

definition round_even :: "rat \<Rightarrow> int" where
  "round_even y =
     (let f = \<lfloor>y\<rfloor>; d = y - of_int f
      in if d < 1 / 2 then f else if 1 / 2 < d then f + 1 else if even f then f else f + 1)"

definition round64 :: "rat \<Rightarrow> double" where
  "round64 x =
     (if x = 0 then Fin 0
      else
        (let a = \<bar>x\<bar>;
             q = pow2 (max (ilog2 a) (- 1022) - 52);
             m = of_int (round_even (a / q)) * q
         in if pow2 1024 \<le> m then (if x < 0 then NegInf else PosInf)
            else if m = 0 then (if x < 0 then NegZero else Fin 0)
            else Fin (if x < 0 then - m else m)))"

text \<open>The value of a finite number; both zeros have the value 0.\<close>

definition dval :: "double \<Rightarrow> rat" where
  "dval d = (case d of Fin x \<Rightarrow> x | _ \<Rightarrow> 0)"

text \<open>
  \<^verbatim>\<open>a < b\<close> and \<^verbatim>\<open>a <= b\<close> on numbers. A comparison with \<^verbatim>\<open>NaN\<close> is false; \<^verbatim>\<open>a <= b\<close> is
  otherwise the negation of \<^verbatim>\<open>b < a\<close>.
\<close>

definition dlt :: "double \<Rightarrow> double \<Rightarrow> bool" where
  "dlt a b =
     (if a = NaN \<or> b = NaN then False
      else if a = PosInf \<or> b = NegInf then False
      else if a = NegInf \<or> b = PosInf then True
      else dval a < dval b)"

definition dle :: "double \<Rightarrow> double \<Rightarrow> bool" where
  "dle a b = (a \<noteq> NaN \<and> b \<noteq> NaN \<and> \<not> dlt b a)"

text \<open>
  \<^verbatim>\<open>a - b\<close> on numbers. An exact difference zero is the positive zero, except that of
  the negative zero and the positive zero.
\<close>

definition dsub :: "double \<Rightarrow> double \<Rightarrow> double" where
  "dsub a b =
     (if a = NaN \<or> b = NaN then NaN
      else if a = PosInf then (if b = PosInf then NaN else PosInf)
      else if a = NegInf then (if b = NegInf then NaN else NegInf)
      else if b = PosInf then NegInf
      else if b = NegInf then PosInf
      else if a = NegZero \<and> b = Fin 0 then NegZero
      else round64 (dval a - dval b))"

subsection \<open>JavaScript values\<close>

text \<open>
  \<^verbatim>\<open>response.json()\<close> yields whatever JSON the service sent: the annotation on line 79 is
  a comment, nothing checks it. So the parsed body, and with it \<^verbatim>\<open>_cachedTokens\<close>, is an
  arbitrary JavaScript value. \<open>Obj\<close> lists the own properties of a parsed object, one entry
  per key.
\<close>

datatype jsval =
    Undefined
  | Null
  | Boolean bool
  | Num double
  | Str string
  | Arr "jsval list"
  | Obj "(string \<times> jsval) list"

text \<open>
  The errors of the language and of the network. The rejection of an aborted request is
  apart: the only signal is that of line 57, and only the timer of line 58 aborts it.
\<close>

datatype js_error = TypeError | SyntaxError | NetworkError

datatype thrown = AbortError | Raised js_error

text \<open>
  Property read \<^verbatim>\<open>v.k\<close>. It throws on \<^verbatim>\<open>undefined\<close> and \<^verbatim>\<open>null\<close>; on an object it
  finds the own property or gives \<^verbatim>\<open>undefined\<close>; on a boolean, number, string or array it
  gives \<^verbatim>\<open>undefined\<close> for each of the names the file reads (\<^verbatim>\<open>tokens\<close>, \<^verbatim>\<open>current\<close>,
  \<^verbatim>\<open>jishokei\<close>, \<^verbatim>\<open>start\<close>, \<^verbatim>\<open>end\<close>), none of which is on a built-in prototype.
\<close>

fun get_prop :: "jsval \<Rightarrow> string \<Rightarrow> js_error + jsval" where
  "get_prop Undefined k = Inl TypeError"
| "get_prop Null k = Inl TypeError"
| "get_prop (Obj kvs) k = Inr (case map_of kvs k of Some v \<Rightarrow> v | None \<Rightarrow> Undefined)"
| "get_prop v k = Inr Undefined"

text \<open>
  The operators \<^verbatim>\<open><=\<close>, \<^verbatim>\<open><\<close> and \<^verbatim>\<open>-\<close> convert an operand that is not a number with
  ToNumber. For \<^verbatim>\<open>undefined\<close>, \<^verbatim>\<open>null\<close> and booleans the conversion is fixed and written
  out. For a string, an array or an object it parses text or calls \<^verbatim>\<open>valueOf\<close> and
  \<^verbatim>\<open>toString\<close>, and it throws when a parsed object shadows both with data; that part
  belongs to the language runtime and is the parameter \<open>co\<close> of the model.
\<close>

type_synonym coercion = "jsval \<Rightarrow> js_error + double"

fun to_number :: "coercion \<Rightarrow> jsval \<Rightarrow> js_error + double" where
  "to_number co Undefined = Inr NaN"
| "to_number co Null = Inr (Fin 0)"
| "to_number co (Boolean b) = Inr (Fin (if b then 1 else 0))"
| "to_number co (Num d) = Inr d"
| "to_number co v = co v"

text \<open>\<^verbatim>\<open>a <= cursorIndex\<close> and \<^verbatim>\<open>cursorIndex < b\<close>, where \<^verbatim>\<open>cursorIndex\<close> is a number.\<close>

definition le_cursor :: "coercion \<Rightarrow> jsval \<Rightarrow> double \<Rightarrow> js_error + bool" where
  "le_cursor co a cursorIndex =
     (case to_number co a of
        Inl e \<Rightarrow> Inl e
      | Inr x \<Rightarrow> Inr (dle x cursorIndex))"

definition cursor_lt :: "coercion \<Rightarrow> double \<Rightarrow> jsval \<Rightarrow> js_error + bool" where
  "cursor_lt co cursorIndex b =
     (case to_number co b of
        Inl e \<Rightarrow> Inl e
      | Inr y \<Rightarrow> Inr (dlt cursorIndex y))"

text \<open>\<^verbatim>\<open>b - a\<close>: the left operand is converted first.\<close>

definition js_minus :: "coercion \<Rightarrow> jsval \<Rightarrow> jsval \<Rightarrow> js_error + double" where
  "js_minus co b a =
     (case to_number co b of
        Inl e \<Rightarrow> Inl e
      | Inr x \<Rightarrow>
          (case to_number co a of
             Inl e \<Rightarrow> Inl e
           | Inr y \<Rightarrow> Inr (dsub x y)))"

text \<open>
  The values a \<^verbatim>\<open>for (const token of v)\<close> loop visits: the elements of an array, the
  characters of a string; every other value that reaches the loop is not iterable.
\<close>

fun iterate :: "jsval \<Rightarrow> js_error + jsval list" where
  "iterate (Arr xs) = Inr xs"
| "iterate (Str s) = Inr (map (\<lambda>ch. Str [ch]) s)"
| "iterate v = Inl TypeError"

subsection \<open>The client\<close>

text \<open>The four fields the constructor sets (lines 24 to 33); \<open>None\<close> is \<^verbatim>\<open>null\<close>.\<close>

record client =
  apiUrl :: string
  timeout :: nat
  cachedSentence :: "string option"
  cachedTokens :: jsval

definition constructor :: client where
  "constructor =
     \<lparr>apiUrl = ''http://127.0.0.1:8000'', timeout = 5000,
      cachedSentence = None, cachedTokens = Null\<rparr>"

text \<open>The object \<^verbatim>\<open>{jishokei, length, offset}\<close> that a call returns.\<close>

record lookup_result =
  res_jishokei :: jsval
  res_length :: double
  res_offset :: jsval

text \<open>
  The object literal of lines 46 to 50 and of lines 90 to 94, built from \<^verbatim>\<open>token\<close> there and
  from \<^verbatim>\<open>data.current\<close> here: \<^verbatim>\<open>jishokei: t.jishokei, length: t.end - t.start, offset: t.start\<close>.
\<close>

definition make_result :: "coercion \<Rightarrow> jsval \<Rightarrow> js_error + lookup_result" where
  "make_result co t =
     (case get_prop t ''jishokei'' of
        Inl e \<Rightarrow> Inl e
      | Inr j \<Rightarrow>
     (case get_prop t ''end'' of
        Inl e \<Rightarrow> Inl e
      | Inr b \<Rightarrow>
     (case get_prop t ''start'' of
        Inl e \<Rightarrow> Inl e
      | Inr a \<Rightarrow>
     (case js_minus co b a of
        Inl e \<Rightarrow> Inl e
      | Inr n \<Rightarrow>
     (case get_prop t ''start'' of
        Inl e \<Rightarrow> Inl e
      | Inr off \<Rightarrow> Inr \<lparr>res_jishokei = j, res_length = n, res_offset = off\<rparr>)))))"

text \<open>
  The loop of \<^verbatim>\<open>_findTokenAtCursor\<close> (lines 114 to 119) over the values still to visit.
  \<^verbatim>\<open>&&\<close> reads \<^verbatim>\<open>token.end\<close> only when the first comparison is true.
\<close>

fun scan :: "coercion \<Rightarrow> jsval list \<Rightarrow> double \<Rightarrow> js_error + jsval" where
  "scan co [] cursorIndex = Inr Null"
| "scan co (token # rest) cursorIndex =
     (case get_prop token ''start'' of
        Inl e \<Rightarrow> Inl e
      | Inr a \<Rightarrow>
     (case le_cursor co a cursorIndex of
        Inl e \<Rightarrow> Inl e
      | Inr lower \<Rightarrow>
          if \<not> lower then scan co rest cursorIndex
          else
     (case get_prop token ''end'' of
        Inl e \<Rightarrow> Inl e
      | Inr b \<Rightarrow>
     (case cursor_lt co cursorIndex b of
        Inl e \<Rightarrow> Inl e
      | Inr upper \<Rightarrow>
          if upper then Inr token else scan co rest cursorIndex))))"

text \<open>\<^verbatim>\<open>_findTokenAtCursor\<close> (lines 110 to 120).\<close>

definition findTokenAtCursor :: "coercion \<Rightarrow> client \<Rightarrow> double \<Rightarrow> js_error + jsval" where
  "findTokenAtCursor co c cursorIndex =
     (if cachedTokens c = Null then Inr Null
      else
        (case iterate (cachedTokens c) of
           Inl e \<Rightarrow> Inl e
         | Inr xs \<Rightarrow> scan co xs cursorIndex))"

subsection \<open>The network\<close>

text \<open>
  What one request meets. \<open>latency\<close> is the time in milliseconds after which \<^verbatim>\<open>fetch\<close>
  would settle by itself (\<open>None\<close>: never), \<open>settles\<close> is how: with a rejection, or with a
  response, that is with its status line and headers. The timer of line 58 fires after
  \<open>timeout\<close> milliseconds; when both fall on the same instant the event loop decides,
  which is \<open>tie_timer_first\<close>. The body of a response comes after that: \<^verbatim>\<open>response.json()\<close>
  fulfils with the parsed value or rejects \<open>body_delay\<close> milliseconds later, or the body
  never ends and the read never settles (\<open>JsonPending\<close>). Line 72 has cleared the timer by
  then, so the code does not look at that delay.
\<close>

datatype json_result = JsonValue jsval | JsonReject js_error | JsonPending

record response =
  status :: nat
  body_delay :: nat
  body :: json_result

datatype settlement = Resolve response | Reject js_error

record network =
  latency :: "nat option"
  tie_timer_first :: bool
  settles :: settlement

definition ok :: "response \<Rightarrow> bool" where
  "ok r = (200 \<le> status r \<and> status r \<le> 299)"

definition timer_wins :: "nat \<Rightarrow> network \<Rightarrow> bool" where
  "timer_wins ms net =
     (case latency net of
        None \<Rightarrow> True
      | Some l \<Rightarrow> ms < l \<or> (ms = l \<and> tie_timer_first net))"

text \<open>What a call does to the outside world, in order.\<close>

datatype event =
    SetTimeout nat
  | Fetch string string double
  | Abort
  | ClearTimeout
  | LogWarnStatus nat
  | LogErrorTimedOut
  | LogError js_error

text \<open>
  A piece of asynchronous code ends with a value, ends with an error, or never ends: the
  promise of a call is fulfilled, is rejected, or stays pending for ever.
\<close>

datatype ('e, 'a) completion = Return 'a | Throw 'e | Pending

subsection \<open>getJishokei\<close>

text \<open>
  The body of the \<^verbatim>\<open>try\<close> block (lines 57 to 94). \<open>Throw e\<close> is the error that reaches the
  \<^verbatim>\<open>catch\<close> clause; the client returned with it holds the assignments made before the throw.
  Line 83 assigns \<^verbatim>\<open>_cachedSentence\<close> before line 84 reads \<^verbatim>\<open>data.tokens\<close>. When
  \<^verbatim>\<open>fetch\<close> rejects by itself, line 72 is skipped: the timer stays armed and fires after
  the call has returned, which the events of the call do not show.
\<close>

definition try_block ::
  "coercion \<Rightarrow> network \<Rightarrow> client \<Rightarrow> string \<Rightarrow> double \<Rightarrow>
     (thrown, lookup_result option) completion \<times> client \<times> event list" where
  "try_block co net c sentence cursorIndex =
     (let sent = [SetTimeout (timeout c), Fetch (apiUrl c) sentence cursorIndex] in
      if timer_wins (timeout c) net then (Throw AbortError, c, sent @ [Abort])
      else
        (case settles net of
           Reject e \<Rightarrow> (Throw (Raised e), c, sent)
         | Resolve r \<Rightarrow>
             (let tr = sent @ [ClearTimeout] in
              if \<not> ok r then (Return None, c, tr @ [LogWarnStatus (status r)])
              else
                (case body r of
                   JsonPending \<Rightarrow> (Pending, c, tr)
                 | JsonReject e \<Rightarrow> (Throw (Raised e), c, tr)
                 | JsonValue data \<Rightarrow>
                     (let c1 = c\<lparr>cachedSentence := Some sentence\<rparr> in
                      case get_prop data ''tokens'' of
                        Inl e \<Rightarrow> (Throw (Raised e), c1, tr)
                      | Inr ts \<Rightarrow>
                          (let c2 = c1\<lparr>cachedTokens := ts\<rparr> in
                           case get_prop data ''current'' of
                             Inl e \<Rightarrow> (Throw (Raised e), c2, tr)
                           | Inr cur \<Rightarrow>
                               if cur = Null then (Return None, c2, tr)
                               else
                                 (case make_result co cur of
                                    Inl e \<Rightarrow> (Throw (Raised e), c2, tr)
                                  | Inr res \<Rightarrow> (Return (Some res), c2, tr))))))))"

text \<open>
  The \<^verbatim>\<open>try\<close> statement with its \<^verbatim>\<open>catch\<close> clause (lines 56 to 102). The clause tells
  the error of an aborted request from every other by its name.
\<close>

definition request ::
  "coercion \<Rightarrow> network \<Rightarrow> client \<Rightarrow> string \<Rightarrow> double \<Rightarrow>
     (js_error, lookup_result option) completion \<times> client \<times> event list" where
  "request co net c sentence cursorIndex =
     (case try_block co net c sentence cursorIndex of
        (Return res, c', tr) \<Rightarrow> (Return res, c', tr)
      | (Throw AbortError, c', tr) \<Rightarrow> (Return None, c', tr @ [LogErrorTimedOut])
      | (Throw (Raised e), c', tr) \<Rightarrow> (Return None, c', tr @ [LogError e])
      | (Pending, c', tr) \<Rightarrow> (Pending, c', tr))"

text \<open>\<^verbatim>\<open>getJishokei\<close> (lines 41 to 103). The cache branch is outside the \<^verbatim>\<open>try\<close>.\<close>

definition getJishokei ::
  "coercion \<Rightarrow> network \<Rightarrow> client \<Rightarrow> string \<Rightarrow> double \<Rightarrow>
     (js_error, lookup_result option) completion \<times> client \<times> event list" where
  "getJishokei co net c sentence cursorIndex =
     (if cachedSentence c = Some sentence \<and> cachedTokens c \<noteq> Null then
        (case findTokenAtCursor co c cursorIndex of
           Inl e \<Rightarrow> (Throw e, c, [])
         | Inr token \<Rightarrow>
             if token \<noteq> Null then
               (case make_result co token of
                  Inl e \<Rightarrow> (Throw e, c, [])
                | Inr res \<Rightarrow> (Return (Some res), c, []))
             else (Return None, c, []))
      else request co net c sentence cursorIndex)"

subsection \<open>Reading a call\<close>

text \<open>The three components of what a call yields: how it completes, the client it
  leaves, the events it caused.\<close>

definition outcome :: "'a \<times> 'b \<times> 'c \<Rightarrow> 'a" where
  "outcome x = fst x"

definition after :: "'a \<times> 'b \<times> 'c \<Rightarrow> 'b" where
  "after x = fst (snd x)"

definition events :: "'a \<times> 'b \<times> 'c \<Rightarrow> 'c" where
  "events x = snd (snd x)"

text \<open>The test of line 43.\<close>

definition cache_hit :: "client \<Rightarrow> string \<Rightarrow> bool" where
  "cache_hit c sentence = (cachedSentence c = Some sentence \<and> cachedTokens c \<noteq> Null)"

text \<open>
  The value bound to \<^verbatim>\<open>data\<close> on line 80, when a request gets that far: the response
  came before the timer, its status is 2xx and its body parsed.
\<close>

definition parsed_body :: "nat \<Rightarrow> network \<Rightarrow> jsval option" where
  "parsed_body ms net =
     (if timer_wins ms net then None
      else
        (case settles net of
           Reject e \<Rightarrow> None
         | Resolve r \<Rightarrow>
             if ok r then (case body r of JsonValue data \<Rightarrow> Some data | _ \<Rightarrow> None)
             else None))"

text \<open>
  A request stalls when a 2xx response came before the timer and its body never ends.
  \<open>arrival\<close> is the instant at which a response has arrived whole, body included.
\<close>

definition stalled :: "nat \<Rightarrow> network \<Rightarrow> bool" where
  "stalled ms net =
     (\<not> timer_wins ms net \<and>
      (case settles net of
         Reject e \<Rightarrow> False
       | Resolve r \<Rightarrow> ok r \<and> body r = JsonPending))"


text \<open>
  Calls made one after the other on the same client. A call that never settles has by
  then done all it will ever do, so the calls after it meet the client it left.
\<close>

type_synonym call = "network \<times> string \<times> double"

fun run :: "coercion \<Rightarrow> client \<Rightarrow> call list \<Rightarrow> client" where
  "run co c [] = c"
| "run co c ((net, sentence, cursorIndex) # rest) =
     run co (after (getJishokei co net c sentence cursorIndex)) rest"

subsection \<open>Tokens as the wire format describes them\<close>

text \<open>
  \<open>field v k\<close> is the property \<open>k\<close> of \<open>v\<close> where reading it does not throw. A token is
  a value whose \<^verbatim>\<open>start\<close> and \<^verbatim>\<open>end\<close> are numbers, which only an object can be; \<open>covers\<close>
  is the containment rule \<^verbatim>\<open>start <= cursorIndex < end\<close>, and \<open>mapped\<close> the result
  \<^verbatim>\<open>{jishokei, length: end - start, offset: start}\<close> of a token, with the subtraction of
  numbers. \<open>nonneg d\<close> is \<^verbatim>\<open>0 <= d\<close>.
\<close>

definition field :: "jsval \<Rightarrow> string \<Rightarrow> jsval" where
  "field v k = (case get_prop v k of Inr x \<Rightarrow> x | Inl e \<Rightarrow> Undefined)"

definition is_num :: "jsval \<Rightarrow> bool" where
  "is_num v = (case v of Num d \<Rightarrow> True | _ \<Rightarrow> False)"

definition num_field :: "jsval \<Rightarrow> string \<Rightarrow> double" where
  "num_field v k = (case field v k of Num d \<Rightarrow> d | _ \<Rightarrow> NaN)"

definition is_token :: "jsval \<Rightarrow> bool" where
  "is_token v = (is_num (field v ''start'') \<and> is_num (field v ''end''))"

definition token_array :: "jsval \<Rightarrow> bool" where
  "token_array v = (case v of Arr xs \<Rightarrow> list_all is_token xs | _ \<Rightarrow> False)"

definition covers :: "double \<Rightarrow> jsval \<Rightarrow> bool" where
  "covers cursorIndex t =
     (dle (num_field t ''start'') cursorIndex \<and> dlt cursorIndex (num_field t ''end''))"

definition mapped :: "jsval \<Rightarrow> lookup_result" where
  "mapped t =
     \<lparr>res_jishokei = field t ''jishokei'',
      res_length = dsub (num_field t ''end'') (num_field t ''start''),
      res_offset = Num (num_field t ''start'')\<rparr>"

definition nonneg :: "double \<Rightarrow> bool" where
  "nonneg d = dle (Fin 0) d"

subsection \<open>Example inputs\<close>

text \<open>
  The examples use tokens whose offsets are numbers, so no operand is ever converted;
  they pass a conversion that answers \<^verbatim>\<open>NaN\<close>. \<open>tabeta\<close> is the token of the end-to-end
  example of the specification, in Latin letters; \<open>inverted\<close> ends before it starts,
  \<open>early\<close> starts before the sentence, \<open>endless\<close> has the offsets \<^verbatim>\<open>1e999\<close>. \<open>reply st b\<close>
  is a response with status \<open>st\<close> after 20 ms and its body \<open>b\<close> 5 ms later, \<open>silence\<close> a
  service that never answers, \<open>slow_body\<close> a response after 20 ms whose body takes a
  minute, \<open>endless_body\<close> one whose body never ends.
\<close>

definition no_coercion :: coercion where
  "no_coercion v = Inr NaN"

definition tabeta :: jsval where
  "tabeta =
     Obj [(''surface'', Str ''tabeta''), (''jishokei'', Str ''taberu''),
          (''start'', Num (Fin 0)), (''end'', Num (Fin 3))]"

definition inverted :: jsval where
  "inverted =
     Obj [(''jishokei'', Str ''taberu''), (''start'', Num (Fin 3)), (''end'', Num (Fin 1))]"

definition early :: jsval where
  "early =
     Obj [(''jishokei'', Str ''taberu''), (''start'', Num (Fin (- 2))), (''end'', Num (Fin 1))]"

definition endless :: jsval where
  "endless =
     Obj [(''jishokei'', Str ''taberu''), (''start'', Num PosInf), (''end'', Num PosInf)]"

definition reply :: "nat \<Rightarrow> json_result \<Rightarrow> network" where
  "reply st b =
     \<lparr>latency = Some 20, tie_timer_first = False,
      settles = Resolve \<lparr>status = st, body_delay = 5, body = b\<rparr>\<rparr>"

definition answer :: "jsval \<Rightarrow> jsval \<Rightarrow> jsval" where
  "answer ts cur = Obj [(''tokens'', ts), (''current'', cur)]"

definition silence :: network where
  "silence = \<lparr>latency = None, tie_timer_first = False, settles = Reject NetworkError\<rparr>"



definition cached_tabeta :: client where
  "cached_tabeta = constructor\<lparr>cachedSentence := Some ''tabeta'', cachedTokens := Arr [tabeta]\<rparr>"

subsection \<open>Properties of the cache and of responses\<close>

text \<open>\<^verbatim>\<open>_cachedSentence\<close> and \<^verbatim>\<open>_cachedTokens\<close> are both \<^verbatim>\<open>null\<close> or both not.\<close>

definition cache_inv :: "client \<Rightarrow> bool" where
  "cache_inv c =
     ((cachedSentence c = None \<and> cachedTokens c = Null) \<or>
      (cachedSentence c \<noteq> None \<and> cachedTokens c \<noteq> Null))"

definition populated :: "client \<Rightarrow> bool" where
  "populated c = (cachedSentence c \<noteq> None \<and> cachedTokens c \<noteq> Null)"

text \<open>
  Two conditions on what a request meets. \<open>tokens_present\<close>: if a 2xx body parses, the
  value has a \<^verbatim>\<open>tokens\<close> property that can be read and is not \<^verbatim>\<open>null\<close>.
  \<open>tokens_conform\<close>: if a 2xx body parses, its \<^verbatim>\<open>tokens\<close> is an array of tokens.
\<close>

definition tokens_present :: "nat \<Rightarrow> network \<Rightarrow> bool" where
  "tokens_present ms net =
     (case parsed_body ms net of
        None \<Rightarrow> True
      | Some data \<Rightarrow>
          (case get_prop data ''tokens'' of Inl e \<Rightarrow> False | Inr ts \<Rightarrow> ts \<noteq> Null))"

definition tokens_conform :: "nat \<Rightarrow> network \<Rightarrow> bool" where
  "tokens_conform ms net =
     (case parsed_body ms net of
        None \<Rightarrow> True
      | Some data \<Rightarrow> token_array (field data ''tokens''))"


subsection \<open>The alternative of section 4.1 of the specification\<close>




section \<open>Properties\<close>

subsection \<open>Numbers\<close>

text \<open>The exponent found by \<open>ilog2\<close> is that of the leading bit.\<close>

lemma ilog2_bounds:
  assumes "0 < x"
  shows "pow2 (ilog2 x) \<le> x \<and> x < pow2 (ilog2 x + 1)"
proof (cases "1 \<le> x")
  case True
  define n where "n = \<lfloor>x\<rfloor>"
  from True have n: "0 < n" by (simp add: n_def)
  then have b: "2 ^ nat (bitlen n - 1) \<le> n" "n < 2 ^ nat (bitlen n)"
    using bitlen_bounds [of n] by simp_all
  from n have pos: "0 < bitlen n"
    using bitlen_nonneg [of n] bitlen_eq_zero_iff [of n] by linarith
  have "(2::rat) ^ nat (bitlen n - 1) = of_int (2 ^ nat (bitlen n - 1))" by simp
  also have "\<dots> \<le> of_int n" using b(1) by (simp only: of_int_le_iff)
  also have "\<dots> \<le> x" by (simp add: n_def)
  finally have lower: "(2::rat) ^ nat (bitlen n - 1) \<le> x" .
  have "x < of_int (n + 1)" using floor_correct [of x] by (simp add: n_def)
  also have "\<dots> \<le> of_int (2 ^ nat (bitlen n))"
  proof -
    from b(2) have "n + 1 \<le> 2 ^ nat (bitlen n)" by simp
    then show ?thesis by (simp only: of_int_le_iff)
  qed
  also have "\<dots> = (2::rat) ^ nat (bitlen n)" by simp
  finally have upper: "x < (2::rat) ^ nat (bitlen n)" .
  from True pos lower upper show ?thesis
    by (simp add: ilog2_def pow2_def n_def)
next
  case False
  define k where "k = \<lceil>1 / x\<rceil> - 1"
  from False assms have y: "1 < 1 / x" by simp
  then have k: "0 < k" by (simp add: k_def)
  then have b: "2 ^ nat (bitlen k - 1) \<le> k" "k < 2 ^ nat (bitlen k)"
    using bitlen_bounds [of k] by simp_all
  from k have pos: "0 < bitlen k"
    using bitlen_nonneg [of k] bitlen_eq_zero_iff [of k] by linarith
  have "1 / x \<le> of_int (k + 1)" using ceiling_correct [of "1 / x"] by (simp add: k_def)
  also have "\<dots> \<le> of_int (2 ^ nat (bitlen k))"
  proof -
    from b(2) have "k + 1 \<le> 2 ^ nat (bitlen k)" by simp
    then show ?thesis by (simp only: of_int_le_iff)
  qed
  also have "\<dots> = (2::rat) ^ nat (bitlen k)" by simp
  finally have "1 / x \<le> (2::rat) ^ nat (bitlen k)" .
  with assms have lower: "1 / 2 ^ nat (bitlen k) \<le> x"
    by (simp add: field_simps)
  have "(2::rat) ^ nat (bitlen k - 1) = of_int (2 ^ nat (bitlen k - 1))" by simp
  also have "\<dots> \<le> of_int k" using b(1) by (simp only: of_int_le_iff)
  also have "\<dots> < 1 / x" using ceiling_correct [of "1 / x"] by (simp add: k_def)
  finally have "(2::rat) ^ nat (bitlen k - 1) < 1 / x" .
  with assms have upper: "x < 1 / 2 ^ nat (bitlen k - 1)"
    by (simp add: field_simps)
  have "ilog2 x = - bitlen k" using False by (simp add: ilog2_def k_def)
  moreover have "pow2 (- bitlen k) = 1 / 2 ^ nat (bitlen k)" using pos by (simp add: pow2_def)
  moreover have "pow2 (- bitlen k + 1) = 1 / 2 ^ nat (bitlen k - 1)"
  proof (cases "bitlen k = 1")
    case True
    then show ?thesis by (simp add: pow2_def)
  next
    case False
    with pos have "\<not> 0 \<le> - bitlen k + 1" "nat (- (- bitlen k + 1)) = nat (bitlen k - 1)"
      by simp_all
    then show ?thesis by (simp add: pow2_def)
  qed
  ultimately show ?thesis using lower upper by simp
qed

lemma pow2_pos: "0 < pow2 k"
  by (simp add: pow2_def)

text \<open>\<open>round_even\<close> gives a nearest integer, and leaves an integer alone.\<close>

lemma round_even_nearest: "\<bar>y - of_int (round_even y)\<bar> \<le> 1 / 2"
proof -
  define f where "f = \<lfloor>y\<rfloor>"
  have b: "of_int f \<le> y" "y < of_int f + 1"
    using floor_correct [of y] by (simp_all add: f_def)
  have "round_even y =
      (if y - of_int f < 1 / 2 then f
       else if 1 / 2 < y - of_int f then f + 1 else if even f then f else f + 1)"
    by (simp add: round_even_def Let_def f_def)
  with b show ?thesis
    by (simp add: abs_if)
qed

lemma round_even_int: "round_even (of_int z) = z"
  by (simp add: round_even_def)

lemma round_even_nonneg: "0 \<le> y \<Longrightarrow> 0 \<le> round_even y"
  by (auto simp: round_even_def Let_def)

lemma nonneg_simps:
  "nonneg (Fin x) = (0 \<le> x)" "nonneg NegZero" "nonneg PosInf" "\<not> nonneg NegInf" "\<not> nonneg NaN"
  by (auto simp: nonneg_def dle_def dlt_def dval_def)

lemma round64_nonneg: "0 \<le> x \<Longrightarrow> nonneg (round64 x)"
  by (auto simp: round64_def Let_def nonneg_simps round_even_nonneg pow2_pos less_imp_le)

text \<open>Integers below \<open>2 ^ 53\<close> are numbers, and their small differences are exact.\<close>

lemma round64_int:
  assumes "\<bar>n\<bar> < 2 ^ 53"
  shows "round64 (of_int n) = Fin (of_int n)"
proof (cases "n = 0")
  case True
  then show ?thesis by (simp add: round64_def)
next
  case False
  define a where "a = \<bar>n\<bar>"
  with False assms have a: "0 < a" "a < 2 ^ 53" by simp_all
  have abs: "\<bar>of_int n :: rat\<bar> = of_int a"
    by (simp add: a_def)
  from a have one: "(1::rat) \<le> of_int a"
    by simp
  from a have "bitlen a \<le> 53"
    by (simp add: bitlen_le_iff_power)
  moreover from a have pos: "0 < bitlen a"
    using bitlen_nonneg [of a] bitlen_eq_zero_iff [of a] by linarith
  ultimately have j: "bitlen a - 1 - 52 = - int (nat (53 - bitlen a))"
    by simp
  define j where "j = nat (53 - bitlen a)"
  note j = j [folded j_def]
  have e: "max (ilog2 (of_int a)) (- 1022) - 52 = - int j"
    using one pos j by (simp add: ilog2_def max_def)
  have q: "pow2 (- int j) = 1 / 2 ^ j"
    by (cases "j = 0") (simp_all add: pow2_def)
  have m: "round_even (of_int a * 2 ^ j) = a * 2 ^ j"
    using round_even_int [of "a * 2 ^ j"] by simp
  have small: "\<not> pow2 1024 \<le> (of_int a :: rat)"
  proof -
    have "(of_int a :: rat) < of_int (2 ^ 53)" using a by (simp only: of_int_less_iff)
    also have "\<dots> \<le> pow2 1024" by (simp add: pow2_def)
    finally show ?thesis by simp
  qed
  from False a have nz: "(of_int a :: rat) \<noteq> 0" by simp
  have "round64 (of_int n) = Fin (if (of_int n :: rat) < 0 then - of_int a else of_int a)"
    using False small nz by (simp add: round64_def Let_def abs e q m)
  also have "(if (of_int n :: rat) < 0 then - of_int a else of_int a) = (of_int n :: rat)"
    by (simp add: a_def)
  finally show ?thesis .
qed

lemma dsub_int:
  assumes "\<bar>a - b\<bar> < 2 ^ 53"
  shows "dsub (Fin (of_int a)) (Fin (of_int b)) = Fin (of_int (a - b))"
  using round64_int [OF assms] by (simp add: dsub_def dval_def)

lemma dsub_examples:
  "dsub (Fin 3) (Fin 0) = Fin 3"
  "dsub (Fin 1) (Fin 3) = Fin (- 2)"
  "dsub (Fin 1) (Fin (- 2)) = Fin 3"
  "dsub PosInf PosInf = NaN"
  using dsub_int [of 3 0] dsub_int [of 1 3] dsub_int [of 1 "- 2"]
  by (simp_all add: dsub_def)

text \<open>
  Above \<open>2 ^ 53\<close> a difference is rounded: \<^verbatim>\<open>9007199254740992 - (-1)\<close> is
  \<^verbatim>\<open>9007199254740992\<close>, the tie going to the even neighbour.
\<close>

lemma floor_rat_numeral: "\<lfloor>(numeral a :: rat) / numeral b\<rfloor> = numeral a div numeral b"
  using floor_divide_of_int_eq [of "numeral a" "numeral b", where ?'a = rat] by simp

lemma bitlen_example: "bitlen 9007199254740993 = 54"
  by code_simp

lemma dsub_rounds: "dsub (Fin (2 ^ 53)) (Fin (- 1)) = Fin (2 ^ 53)"
  by (simp add: dsub_def dval_def round64_def ilog2_def pow2_def round_even_def Let_def
        bitlen_example floor_rat_numeral)

text \<open>The span of a token that covers a cursor, and of a token in order, is not negative.\<close>

lemma covering_span:
  assumes "dle s i" and "dlt i e"
  shows "nonneg (dsub e s)"
proof -
  from assms have "s \<noteq> NaN" "e \<noteq> NaN" "i \<noteq> NaN" "s \<noteq> PosInf" "e \<noteq> NegInf"
    by (auto simp: dle_def dlt_def split: if_splits)
  moreover from assms have "s \<noteq> NegInf \<Longrightarrow> e \<noteq> PosInf \<Longrightarrow> dval s < dval e"
    by (auto simp: dle_def dlt_def split: if_splits)
  ultimately show ?thesis
    by (cases s; cases e) (auto simp: dsub_def nonneg_simps dval_def intro: round64_nonneg)
qed

lemma ordered_span:
  assumes "nonneg s" and "dle s e" and "s \<noteq> PosInf"
  shows "nonneg (dsub e s)"
proof -
  from assms have "s \<noteq> NaN" "e \<noteq> NaN" "s \<noteq> NegInf" "e \<noteq> NegInf"
    by (auto simp: nonneg_def dle_def dlt_def split: if_splits)
  moreover from assms have "e \<noteq> PosInf \<Longrightarrow> dval s \<le> dval e"
    by (auto simp: nonneg_def dle_def dlt_def split: if_splits)
  ultimately show ?thesis using assms(3)
    by (cases s; cases e) (auto simp: dsub_def nonneg_simps dval_def intro: round64_nonneg)
qed

subsection \<open>Tokens and the scan\<close>

lemma is_token_props:
  assumes "is_token v"
  shows "get_prop v ''start'' = Inr (Num (num_field v ''start''))"
    and "get_prop v ''end'' = Inr (Num (num_field v ''end''))"
    and "get_prop v ''jishokei'' = Inr (field v ''jishokei'')"
    and "v \<noteq> Null"
  using assms
  by (cases v; auto simp: is_token_def is_num_def field_def num_field_def
        split: jsval.splits option.splits)+

lemma make_result_token: "is_token v \<Longrightarrow> make_result co v = Inr (mapped v)"
  by (simp add: make_result_def is_token_props js_minus_def mapped_def)

lemma scan_tokens:
  "list_all is_token vs \<Longrightarrow>
   scan co vs i = Inr (case find (covers i) vs of None \<Rightarrow> Null | Some v \<Rightarrow> v)"
  by (induction vs) (auto simp: is_token_props le_cursor_def cursor_lt_def covers_def)

lemma find_token: "list_all P vs \<Longrightarrow> find Q vs = Some v \<Longrightarrow> P v \<and> Q v"
  by (induction vs) (auto split: if_splits)

lemma hit_tokens:
  assumes "cachedSentence c = Some s" and "cachedTokens c = Arr vs" and "list_all is_token vs"
  shows "getJishokei co net c s i = (Return (map_option mapped (find (covers i) vs)), c, [])"
proof (cases "find (covers i) vs")
  case None
  with assms show ?thesis
    by (simp add: getJishokei_def findTokenAtCursor_def scan_tokens)
next
  case (Some v)
  with assms have "is_token v" by (auto dest: find_token)
  with Some assms show ?thesis
    by (simp add: getJishokei_def findTokenAtCursor_def scan_tokens is_token_props
          make_result_token)
qed

lemma tabeta_token: "is_token tabeta"
  by (simp add: is_token_def tabeta_def field_def is_num_def)

lemma mapped_tabeta:
  "mapped tabeta =
     \<lparr>res_jishokei = Str ''taberu'', res_length = Fin 3, res_offset = Num (Fin 0)\<rparr>"
  by (simp add: mapped_def num_field_def field_def tabeta_def dsub_examples)

lemma covers_tabeta:
  "covers (Fin 0) tabeta" "covers (Fin 1) tabeta" "covers (Fin 2) tabeta"
  "\<not> covers (Fin 3) tabeta"
  by (simp_all add: covers_def num_field_def field_def tabeta_def dle_def dlt_def dval_def)

subsection \<open>The two branches of a call\<close>

lemma hit_state: "cache_hit c s \<Longrightarrow> after (getJishokei co net c s i) = c"
  by (auto simp: getJishokei_def cache_hit_def after_def split: sum.splits)


lemma miss_request: "\<not> cache_hit c s \<Longrightarrow> getJishokei co net c s i = request co net c s i"
  by (auto simp: getJishokei_def cache_hit_def)

lemma request_never_throws: "outcome (request co net c s i) \<noteq> Throw e"
  by (auto simp: request_def try_block_def outcome_def Let_def
        split: if_splits settlement.splits json_result.splits sum.splits)

lemma request_pending: "outcome (request co net c s i) = Pending \<Longrightarrow> stalled (timeout c) net"
  by (auto simp: request_def try_block_def outcome_def stalled_def Let_def
        split: if_splits settlement.splits json_result.splits sum.splits)

lemma request_returns:
  "\<not> stalled (timeout c) net \<Longrightarrow> \<exists>r. outcome (request co net c s i) = Return r"
  using request_never_throws [of co net c s i] request_pending [of co net c s i]
  by (cases "outcome (request co net c s i)") auto

lemma request_no_body:
  assumes "parsed_body (timeout c) net = None"
  shows "\<not> stalled (timeout c) net \<Longrightarrow> outcome (request co net c s i) = Return None"
    and "after (request co net c s i) = c"
  using assms
  by (auto simp: request_def try_block_def parsed_body_def stalled_def outcome_def after_def
        Let_def split: if_splits settlement.splits json_result.splits)

lemma request_body:
  assumes "parsed_body (timeout c) net = Some d"
  shows "after (request co net c s i) =
           (case get_prop d ''tokens'' of
              Inl e \<Rightarrow> c\<lparr>cachedSentence := Some s\<rparr>
            | Inr ts \<Rightarrow> c\<lparr>cachedSentence := Some s, cachedTokens := ts\<rparr>)"
  using assms
  by (auto simp: request_def try_block_def parsed_body_def after_def Let_def
        split: if_splits settlement.splits json_result.splits sum.splits)

lemma request_body_result:
  assumes "parsed_body (timeout c) net = Some d"
    and "get_prop d ''tokens'' = Inr ts" and "get_prop d ''current'' = Inr cur"
  shows "outcome (request co net c s i) =
           Return (if cur = Null then None
                   else (case make_result co cur of Inl e \<Rightarrow> None | Inr res \<Rightarrow> Some res))"
    and "events (request co net c s i) =
           [SetTimeout (timeout c), Fetch (apiUrl c) s i, ClearTimeout] @
           (if cur = Null then []
            else (case make_result co cur of Inl e \<Rightarrow> [LogError e] | Inr res \<Rightarrow> []))"
  using assms
  by (auto simp: request_def try_block_def parsed_body_def outcome_def events_def Let_def
        split: if_splits settlement.splits json_result.splits sum.splits)



lemma call_cases [case_names same stored partial]:
  obtains
    (same) "after (getJishokei co net c s i) = c"
  | (stored) d ts where "parsed_body (timeout c) net = Some d"
      and "get_prop d ''tokens'' = Inr ts"
      and "after (getJishokei co net c s i) = c\<lparr>cachedSentence := Some s, cachedTokens := ts\<rparr>"
  | (partial) d e where "parsed_body (timeout c) net = Some d"
      and "get_prop d ''tokens'' = Inl e"
      and "after (getJishokei co net c s i) = c\<lparr>cachedSentence := Some s\<rparr>"
proof (cases "cache_hit c s")
  case True
  then show ?thesis using same by (simp add: hit_state)
next
  case False
  show ?thesis
  proof (cases "parsed_body (timeout c) net")
    case None
    with False show ?thesis using same by (simp add: miss_request request_no_body)
  next
    case (Some d)
    with False have
      "after (getJishokei co net c s i) =
         (case get_prop d ''tokens'' of
            Inl e \<Rightarrow> c\<lparr>cachedSentence := Some s\<rparr>
          | Inr ts \<Rightarrow> c\<lparr>cachedSentence := Some s, cachedTokens := ts\<rparr>)"
      by (simp add: miss_request request_body)
    with Some show ?thesis using stored partial
      by (cases "get_prop d ''tokens''") auto
  qed
qed

text \<open>A call changes neither the timeout nor the address.\<close>

lemma call_timeout: "timeout (after (getJishokei co net c s i)) = timeout c"
  by (cases rule: call_cases [of co net c s i]) simp_all

lemma run_timeout: "timeout (run co c calls) = timeout c"
  by (induction co c calls rule: run.induct) (auto simp: call_timeout)

text \<open>The end-to-end example of the specification: the first call fills the cache.\<close>

lemma example_first_call:
  "getJishokei no_coercion (reply 200 (JsonValue (answer (Arr [tabeta]) tabeta)))
     constructor ''tabeta'' (Fin 0) =
   (Return (Some \<lparr>res_jishokei = Str ''taberu'', res_length = Fin 3, res_offset = Num (Fin 0)\<rparr>),
    cached_tabeta,
    [SetTimeout 5000, Fetch ''http://127.0.0.1:8000'' ''tabeta'' (Fin 0), ClearTimeout])"
  by (simp add: getJishokei_def request_def try_block_def constructor_def reply_def
        timer_wins_def ok_def answer_def tabeta_def make_result_def js_minus_def
        cached_tabeta_def dsub_examples)

subsection \<open>Caches that a scan can read\<close>

lemma hit_returns:
  assumes "cachedTokens c = Null \<or> token_array (cachedTokens c)"
  shows "outcome (getJishokei co net c s i) \<noteq> Throw e"
    and "\<not> stalled (timeout c) net \<Longrightarrow> \<exists>r. outcome (getJishokei co net c s i) = Return r"
proof -
  have "outcome (getJishokei co net c s i) \<noteq> Throw e \<and>
    (\<not> stalled (timeout c) net \<longrightarrow> (\<exists>r. outcome (getJishokei co net c s i) = Return r))"
  proof (cases "cache_hit c s")
    case False
    then show ?thesis by (simp add: miss_request request_returns request_never_throws)
  next
    case True
    with assms obtain vs where "cachedTokens c = Arr vs" and "list_all is_token vs"
      by (auto simp: cache_hit_def token_array_def split: jsval.splits)
    with True show ?thesis by (simp add: hit_tokens cache_hit_def outcome_def)
  qed
  then show "outcome (getJishokei co net c s i) \<noteq> Throw e"
    and "\<not> stalled (timeout c) net \<Longrightarrow> \<exists>r. outcome (getJishokei co net c s i) = Return r"
    by simp_all
qed

lemma call_readable:
  assumes "cachedTokens c = Null \<or> token_array (cachedTokens c)"
    and "tokens_conform (timeout c) net"
  shows "cachedTokens (after (getJishokei co net c s i)) = Null \<or>
         token_array (cachedTokens (after (getJishokei co net c s i)))"
proof (cases rule: call_cases [of co net c s i])
  case same
  with assms(1) show ?thesis by simp
next
  case (stored d ts)
  with assms(2) show ?thesis by (simp add: tokens_conform_def field_def)
next
  case (partial d e)
  with assms(1) show ?thesis by simp
qed

lemma run_readable:
  assumes "cachedTokens c = Null \<or> token_array (cachedTokens c)"
    and "list_all (\<lambda>(net, s, i). tokens_conform (timeout c) net) calls"
  shows "cachedTokens (run co c calls) = Null \<or> token_array (cachedTokens (run co c calls))"
  using assms
proof (induction co c calls rule: run.induct)
  case (1 co c)
  then show ?case by simp
next
  case (2 co c net s i rest)
  then show ?case by (simp add: call_readable call_timeout)
qed

subsection \<open>The cache invariant along a run\<close>

lemma call_present:
  assumes "tokens_present (timeout c) net"
  shows "after (getJishokei co net c s i) = c \<or>
         (\<exists>d ts. parsed_body (timeout c) net = Some d \<and> get_prop d ''tokens'' = Inr ts \<and>
            ts \<noteq> Null \<and>
            after (getJishokei co net c s i) = c\<lparr>cachedSentence := Some s, cachedTokens := ts\<rparr>)"
proof (cases rule: call_cases [of co net c s i])
  case same
  then show ?thesis by simp
next
  case (stored d ts)
  with assms have "ts \<noteq> Null" by (simp add: tokens_present_def)
  with stored show ?thesis by blast
next
  case (partial d e)
  with assms show ?thesis by (simp add: tokens_present_def)
qed

lemma call_inv:
  assumes "cache_inv c" and "tokens_present (timeout c) net"
  shows "cache_inv (after (getJishokei co net c s i))"
  using call_present [OF assms(2), of co s i] assms(1)
  by (auto simp: cache_inv_def)

lemma run_inv:
  assumes "cache_inv c"
    and "list_all (\<lambda>(net, s, i). tokens_present (timeout c) net) calls"
  shows "cache_inv (run co c calls)"
  using assms
proof (induction co c calls rule: run.induct)
  case (1 co c)
  then show ?case by simp
next
  case (2 co c net s i rest)
  then show ?case by (simp add: call_inv call_timeout)
qed

lemma call_sentence:
  "cachedSentence c \<noteq> None \<Longrightarrow> cachedSentence (after (getJishokei co net c s i)) \<noteq> None"
  by (cases rule: call_cases [of co net c s i]) simp_all

lemma run_sentence: "cachedSentence c \<noteq> None \<Longrightarrow> cachedSentence (run co c calls) \<noteq> None"
  by (induction co c calls rule: run.induct) (auto simp: call_sentence)

lemma call_populated:
  assumes "populated c" and "tokens_present (timeout c) net"
  shows "populated (after (getJishokei co net c s i))"
  using call_present [OF assms(2), of co s i] assms(1)
  by (auto simp: populated_def)

lemma run_populated:
  assumes "populated c"
    and "list_all (\<lambda>(net, s, i). tokens_present (timeout c) net) calls"
  shows "populated (run co c calls)"
  using assms
proof (induction co c calls rule: run.induct)
  case (1 co c)
  then show ?case by simp
next
  case (2 co c net s i rest)
  then show ?case by (simp add: call_populated call_timeout)
qed

subsection \<open>A client that every call leaves alone\<close>


subsection \<open>Conversions at work\<close>

text \<open>
  Offsets that are not numbers are converted where the code compares and subtracts.
  \<^verbatim>\<open>null\<close> counts as 0 and \<^verbatim>\<open>true\<close> as 1, and the result carries the offset as it was
  cached. A cached string is iterated by character, and no character has a \<^verbatim>\<open>start\<close>.
\<close>

lemma converted_offsets:
  "getJishokei no_coercion silence
     (constructor\<lparr>cachedSentence := Some ''tabeta'',
        cachedTokens := Arr [Obj [(''jishokei'', Str ''taberu''), (''start'', Null),
                                  (''end'', Num (Fin 3))]]\<rparr>)
     ''tabeta'' (Fin 0) =
   (Return (Some \<lparr>res_jishokei = Str ''taberu'', res_length = Fin 3, res_offset = Null\<rparr>),
    constructor\<lparr>cachedSentence := Some ''tabeta'',
      cachedTokens := Arr [Obj [(''jishokei'', Str ''taberu''), (''start'', Null),
                                (''end'', Num (Fin 3))]]\<rparr>,
    [])"
  "outcome (getJishokei no_coercion silence
     (constructor\<lparr>cachedSentence := Some ''tabeta'',
        cachedTokens := Arr [Obj [(''jishokei'', Str ''taberu''), (''start'', Boolean True),
                                  (''end'', Num (Fin 3))]]\<rparr>)
     ''tabeta'' (Fin 1)) =
   Return (Some \<lparr>res_jishokei = Str ''taberu'', res_length = Fin 2,
                 res_offset = Boolean True\<rparr>)"
  "outcome (getJishokei no_coercion silence
     (constructor\<lparr>cachedSentence := Some ''tabeta'', cachedTokens := Str ''ab''\<rparr>)
     ''tabeta'' (Fin 0)) = Return None"
  using dsub_int [of 3 0] dsub_int [of 3 1]
  by (simp_all add: getJishokei_def findTokenAtCursor_def constructor_def make_result_def
        js_minus_def le_cursor_def cursor_lt_def dle_def dlt_def dval_def outcome_def)

text \<open>
  A string, an array or an object goes through the conversion of the runtime. Where
  that conversion throws, the cache branch passes the error on to the caller, and the
  request branch logs it and returns \<^verbatim>\<open>null\<close>.
\<close>

lemma conversion_throws:
  "outcome (getJishokei (\<lambda>v. Inl TypeError) silence
     (constructor\<lparr>cachedSentence := Some ''tabeta'',
        cachedTokens := Arr [Obj [(''start'', Obj [(''valueOf'', Null), (''toString'', Null)]),
                                  (''end'', Num (Fin 3))]]\<rparr>)
     ''tabeta'' (Fin 0)) = Throw TypeError"
  "getJishokei (\<lambda>v. Inl TypeError)
     (reply 200 (JsonValue (answer (Arr [])
        (Obj [(''start'', Obj [(''valueOf'', Null), (''toString'', Null)]),
              (''end'', Num (Fin 3))]))))
     constructor ''tabeta'' (Fin 0) =
   (Return None,
    constructor\<lparr>cachedSentence := Some ''tabeta'', cachedTokens := Arr []\<rparr>,
    [SetTimeout 5000, Fetch ''http://127.0.0.1:8000'' ''tabeta'' (Fin 0), ClearTimeout,
     LogError TypeError])"
  by (simp_all add: getJishokei_def findTokenAtCursor_def constructor_def make_result_def
        js_minus_def le_cursor_def cursor_lt_def request_def try_block_def reply_def
        answer_def timer_wins_def ok_def outcome_def)

section \<open>The claims\<close>

text \<open>
  C1, as stated, fails: not every client state that passes the test of line 43 holds
  tokens. A 200 response with the body \<^verbatim>\<open>{"tokens": [null], "current": null}\<close> makes
  the first call cache the array \<^verbatim>\<open>[null]\<close> and return \<^verbatim>\<open>null\<close>. The next call with the
  same sentence is a cache hit, and it returns nothing: reading \<^verbatim>\<open>token.start\<close> on line
  115 throws a TypeError.
\<close>

theorem cache_hit_on_null_token_throws:
  "cache_hit
     (after (getJishokei no_coercion (reply 200 (JsonValue (answer (Arr [Null]) Null)))
        constructor ''tabeta'' (Fin 0)))
     ''tabeta'' \<and>
   outcome (getJishokei no_coercion silence
      (after (getJishokei no_coercion (reply 200 (JsonValue (answer (Arr [Null]) Null)))
         constructor ''tabeta'' (Fin 0)))
      ''tabeta'' (Fin 0)) = Throw TypeError"
  by (simp add: getJishokei_def request_def try_block_def findTokenAtCursor_def
        constructor_def reply_def answer_def timer_wins_def ok_def outcome_def after_def
        cache_hit_def)

text \<open>
  C1, amended. When the cached sentence equals the argument and the cached tokens are an
  array of tokens (objects whose \<^verbatim>\<open>start\<close> and \<^verbatim>\<open>end\<close> are numbers), the call makes no
  request and leaves the client as it was; it returns the result mapped from the first
  cached token, in cached order, with \<^verbatim>\<open>start <= cursorIndex < end\<close>, and \<^verbatim>\<open>null\<close> when
  no cached token covers the cursor.
\<close>

theorem cache_hit_scan:
  assumes "cachedSentence c = Some sentence"
    and "cachedTokens c = Arr vs"
    and "list_all is_token vs"
  shows "getJishokei co net c sentence cursorIndex =
           (Return (map_option mapped (find (covers cursorIndex) vs)), c, [])"
  using assms by (rule hit_tokens)

theorem cache_hit_scan_witness:
  "getJishokei no_coercion silence cached_tabeta ''tabeta'' (Fin 1) =
     (Return (Some \<lparr>res_jishokei = Str ''taberu'', res_length = Fin 3,
                    res_offset = Num (Fin 0)\<rparr>),
      cached_tabeta, []) \<and>
   getJishokei no_coercion silence cached_tabeta ''tabeta'' (Fin 3) =
     (Return None, cached_tabeta, [])"
  using cache_hit_scan [of cached_tabeta "''tabeta''" "[tabeta]" no_coercion silence "Fin 1"]
    cache_hit_scan [of cached_tabeta "''tabeta''" "[tabeta]" no_coercion silence "Fin 3"]
  by (simp add: tabeta_token cached_tabeta_def covers_tabeta mapped_tabeta)

text \<open>
  C2, as stated, fails: a call that fails on a response that does not match the schema can
  leave the cache changed. With \<^verbatim>\<open>tabeta\<close> cached, a call for another sentence that meets
  a 200 response whose body is the JSON text \<^verbatim>\<open>null\<close> throws on line 84, after line 83
  has stored the new sentence; the error is logged, the call returns \<^verbatim>\<open>null\<close>, and the
  cache holds the new sentence with the old tokens.
\<close>

theorem failed_call_changes_cache:
  "outcome (getJishokei no_coercion (reply 200 (JsonValue Null)) cached_tabeta ''nomu'' (Fin 0)) =
     Return None \<and>
   events (getJishokei no_coercion (reply 200 (JsonValue Null)) cached_tabeta ''nomu'' (Fin 0)) =
     [SetTimeout 5000, Fetch ''http://127.0.0.1:8000'' ''nomu'' (Fin 0), ClearTimeout,
      LogError TypeError] \<and>
   cachedSentence cached_tabeta = Some ''tabeta'' \<and>
   cachedSentence
     (after (getJishokei no_coercion (reply 200 (JsonValue Null)) cached_tabeta ''nomu'' (Fin 0))) =
     Some ''nomu'' \<and>
   cachedTokens
     (after (getJishokei no_coercion (reply 200 (JsonValue Null)) cached_tabeta ''nomu'' (Fin 0))) =
     Arr [tabeta]"
  by (simp add: getJishokei_def request_def try_block_def cached_tabeta_def constructor_def
        reply_def timer_wins_def ok_def outcome_def events_def after_def)

text \<open>
  C2, amended. A call that fails because the timer fires first, because \<^verbatim>\<open>fetch\<close>
  rejects, because the status is not 2xx or because the body does not parse leaves both
  cache fields exactly as they were, and on a cache miss it returns \<^verbatim>\<open>null\<close>.
\<close>

theorem failed_request_keeps_cache:
  assumes "timer_wins (timeout c) net \<or>
           (\<exists>e. settles net = Reject e) \<or>
           (\<exists>r. settles net = Resolve r \<and> (\<not> ok r \<or> (\<exists>e. body r = JsonReject e)))"
  shows "after (getJishokei co net c sentence cursorIndex) = c \<and>
         (\<not> cache_hit c sentence \<longrightarrow>
            outcome (getJishokei co net c sentence cursorIndex) = Return None)"
proof -
  from assms have none: "parsed_body (timeout c) net = None" "\<not> stalled (timeout c) net"
    by (auto simp: parsed_body_def stalled_def)
  show ?thesis
  proof (cases "cache_hit c sentence")
    case True
    then show ?thesis by (simp add: hit_state)
  next
    case False
    with none show ?thesis by (simp add: miss_request request_no_body)
  qed
qed

theorem failed_request_keeps_cache_witness:
  "after (getJishokei no_coercion (reply 503 (JsonValue Null)) cached_tabeta ''nomu'' (Fin 0)) =
     cached_tabeta \<and>
   outcome (getJishokei no_coercion (reply 503 (JsonValue Null)) cached_tabeta ''nomu'' (Fin 0)) =
     Return None \<and>
   after (getJishokei no_coercion (reply 200 (JsonReject SyntaxError)) cached_tabeta ''nomu''
     (Fin 0)) = cached_tabeta \<and>
   after (getJishokei no_coercion silence cached_tabeta ''nomu'' (Fin 0)) = cached_tabeta"
  using failed_request_keeps_cache
      [of cached_tabeta "reply 503 (JsonValue Null)" no_coercion "''nomu''" "Fin 0"]
    failed_request_keeps_cache
      [of cached_tabeta "reply 200 (JsonReject SyntaxError)" no_coercion "''nomu''" "Fin 0"]
    failed_request_keeps_cache [of cached_tabeta silence no_coercion "''nomu''" "Fin 0"]
  by (simp add: reply_def silence_def ok_def timer_wins_def cache_hit_def cached_tabeta_def
        constructor_def)

text \<open>
  C3, as stated, fails: a 2xx response whose body parses does not always replace the
  cache. On a new client, the body \<^verbatim>\<open>null\<close> makes the call store the sentence and no
  tokens: line 84 throws, the call returns \<^verbatim>\<open>null\<close>, and the cache is not a hit for that
  sentence. The body \<^verbatim>\<open>{"tokens": null, "current": null}\<close> makes the call store the
  sentence with \<^verbatim>\<open>null\<close> as the tokens and return \<^verbatim>\<open>null\<close>: the cache is not populated for
  later hits either.
\<close>

theorem parsed_body_not_cached:
  "outcome (getJishokei no_coercion (reply 200 (JsonValue Null)) constructor ''nomu'' (Fin 0)) =
     Return None \<and>
   after (getJishokei no_coercion (reply 200 (JsonValue Null)) constructor ''nomu'' (Fin 0)) =
     constructor\<lparr>cachedSentence := Some ''nomu''\<rparr> \<and>
   \<not> cache_hit
       (after (getJishokei no_coercion (reply 200 (JsonValue Null)) constructor ''nomu'' (Fin 0)))
       ''nomu'' \<and>
   outcome (getJishokei no_coercion (reply 200 (JsonValue (answer Null Null)))
      constructor ''nomu'' (Fin 0)) = Return None \<and>
   \<not> cache_hit
       (after (getJishokei no_coercion (reply 200 (JsonValue (answer Null Null)))
          constructor ''nomu'' (Fin 0)))
       ''nomu''"
  by (simp add: getJishokei_def request_def try_block_def constructor_def reply_def
        answer_def timer_wins_def ok_def outcome_def after_def cache_hit_def)

text \<open>
  C3, amended. On a cache miss, when the response is 2xx and its body parses to a value
  whose \<^verbatim>\<open>tokens\<close> property can be read and whose \<^verbatim>\<open>current\<close> is \<^verbatim>\<open>null\<close> or a token, the
  cache becomes the argument sentence with the response's tokens, also when \<^verbatim>\<open>current\<close> is
  \<^verbatim>\<open>null\<close>, and the call returns the result mapped from \<^verbatim>\<open>current\<close>, or \<^verbatim>\<open>null\<close> when
  \<^verbatim>\<open>current\<close> is \<^verbatim>\<open>null\<close>; when those tokens are not \<^verbatim>\<open>null\<close>, the cache is then a hit for
  that sentence.
\<close>

theorem successful_response_replaces_cache:
  assumes "\<not> cache_hit c sentence"
    and "parsed_body (timeout c) net = Some data"
    and "get_prop data ''tokens'' = Inr ts"
    and "get_prop data ''current'' = Inr cur"
    and "cur = Null \<or> is_token cur"
  shows "outcome (getJishokei co net c sentence cursorIndex) =
           Return (if cur = Null then None else Some (mapped cur)) \<and>
         after (getJishokei co net c sentence cursorIndex) =
           c\<lparr>cachedSentence := Some sentence, cachedTokens := ts\<rparr> \<and>
         (ts \<noteq> Null \<longrightarrow>
            cache_hit (after (getJishokei co net c sentence cursorIndex)) sentence)"
proof -
  from assms(5) have "cur \<noteq> Null \<Longrightarrow> make_result co cur = Inr (mapped cur)"
    by (auto simp: make_result_token)
  with assms(1-4) show ?thesis
    by (simp add: miss_request request_body request_body_result cache_hit_def)
qed

theorem successful_response_replaces_cache_witness:
  "outcome (getJishokei no_coercion (reply 200 (JsonValue (answer (Arr [tabeta]) Null)))
      constructor ''tabeta'' (Fin 5)) = Return None \<and>
   after (getJishokei no_coercion (reply 200 (JsonValue (answer (Arr [tabeta]) Null)))
      constructor ''tabeta'' (Fin 5)) = cached_tabeta \<and>
   cache_hit
     (after (getJishokei no_coercion (reply 200 (JsonValue (answer (Arr [tabeta]) Null)))
        constructor ''tabeta'' (Fin 5)))
     ''tabeta'' \<and>
   outcome (getJishokei no_coercion (reply 200 (JsonValue (answer (Arr [tabeta]) tabeta)))
      constructor ''tabeta'' (Fin 0)) =
     Return (Some \<lparr>res_jishokei = Str ''taberu'', res_length = Fin 3,
                   res_offset = Num (Fin 0)\<rparr>)"
proof -
  have miss: "\<not> cache_hit constructor ''tabeta''"
    by (simp add: cache_hit_def constructor_def)
  have body:
    "parsed_body (timeout constructor) (reply 200 (JsonValue (answer (Arr [tabeta]) cur))) =
       Some (answer (Arr [tabeta]) cur)" for cur
    by (simp add: parsed_body_def timer_wins_def ok_def reply_def constructor_def)
  have props: "get_prop (answer (Arr [tabeta]) cur) ''tokens'' = Inr (Arr [tabeta])"
    "get_prop (answer (Arr [tabeta]) cur) ''current'' = Inr cur" for cur
    by (simp_all add: answer_def)
  have stored:
    "constructor\<lparr>cachedSentence := Some ''tabeta'', cachedTokens := Arr [tabeta]\<rparr> =
       cached_tabeta"
    by (simp add: cached_tabeta_def)
  have hit: "cache_hit cached_tabeta ''tabeta''"
    by (simp add: cache_hit_def cached_tabeta_def)
  have "tabeta \<noteq> Null"
    by (simp add: tabeta_def)
  with hit successful_response_replaces_cache
      [OF miss body props, of Null no_coercion "Fin 5"]
    successful_response_replaces_cache
      [OF miss body props, of tabeta no_coercion "Fin 0"]
    stored tabeta_token mapped_tabeta
  show ?thesis by simp
qed

text \<open>
  C4, as stated, fails: a call can reject with an error. A 200 response whose body is
  \<^verbatim>\<open>{"current": null}\<close> makes the first call store \<^verbatim>\<open>undefined\<close> as the cached tokens and
  return \<^verbatim>\<open>null\<close>. The next call with the same sentence passes the test of line 43, for
  \<^verbatim>\<open>undefined !== null\<close>, and the loop of line 114, which is outside the \<^verbatim>\<open>try\<close>, throws a
  TypeError that reaches the caller.
\<close>

theorem cache_hit_throws:
  "outcome (getJishokei no_coercion (reply 200 (JsonValue (Obj [(''current'', Null)])))
      constructor ''tabeta'' (Fin 0)) = Return None \<and>
   outcome (getJishokei no_coercion silence
      (after (getJishokei no_coercion (reply 200 (JsonValue (Obj [(''current'', Null)])))
         constructor ''tabeta'' (Fin 0)))
      ''tabeta'' (Fin 0)) = Throw TypeError"
  by (simp add: getJishokei_def request_def try_block_def findTokenAtCursor_def
        constructor_def reply_def timer_wins_def ok_def outcome_def after_def)

text \<open>
  C4, amended. \<open>getJishokei\<close> raises no error in any client state reached from
  construction by calls in which every 2xx response that parsed carried a \<^verbatim>\<open>tokens\<close>
  array of tokens, whatever the present call meets; and on a cache miss it raises no error
  in any client state at all. In both cases the call returns, unless the body of a 2xx
  response never ends.
\<close>

theorem never_raises:
  "(list_all (\<lambda>(net', s', i'). tokens_conform (timeout constructor) net') calls \<longrightarrow>
      (\<forall>e. outcome (getJishokei co net (run co constructor calls) sentence cursorIndex) \<noteq>
         Throw e) \<and>
      (\<not> stalled (timeout constructor) net \<longrightarrow>
         (\<exists>r. outcome (getJishokei co net (run co constructor calls) sentence cursorIndex) =
            Return r))) \<and>
   (\<not> cache_hit c sentence \<longrightarrow>
      (\<forall>e. outcome (getJishokei co net c sentence cursorIndex) \<noteq> Throw e) \<and>
      (\<not> stalled (timeout c) net \<longrightarrow>
         (\<exists>r. outcome (getJishokei co net c sentence cursorIndex) = Return r)))"
proof (intro conjI impI allI)
  assume "list_all (\<lambda>(net', s', i'). tokens_conform (timeout constructor) net') calls"
  moreover have "cachedTokens constructor = Null \<or> token_array (cachedTokens constructor)"
    by (simp add: constructor_def)
  ultimately have readable:
    "cachedTokens (run co constructor calls) = Null \<or>
     token_array (cachedTokens (run co constructor calls))"
    by (rule run_readable [rotated])
  then show "outcome (getJishokei co net (run co constructor calls) sentence cursorIndex) \<noteq>
      Throw e" for e
    by (rule hit_returns)
  assume "\<not> stalled (timeout constructor) net"
  then have "\<not> stalled (timeout (run co constructor calls)) net"
    by (simp add: run_timeout)
  with readable
  show "\<exists>r. outcome (getJishokei co net (run co constructor calls) sentence cursorIndex) =
      Return r"
    by (rule hit_returns)
next
  assume "\<not> cache_hit c sentence"
  then show "outcome (getJishokei co net c sentence cursorIndex) \<noteq> Throw e" for e
    by (simp add: miss_request request_never_throws)
next
  assume "\<not> cache_hit c sentence" and "\<not> stalled (timeout c) net"
  then show "\<exists>r. outcome (getJishokei co net c sentence cursorIndex) = Return r"
    by (simp add: miss_request request_returns)
qed

theorem never_raises_witness:
  "outcome (getJishokei no_coercion (reply 200 (JsonValue (Obj [(''current'', Null)])))
      (run no_coercion constructor
         [(reply 200 (JsonValue (answer (Arr [tabeta]) tabeta)), ''tabeta'', Fin 0)])
      ''tabeta'' (Fin 1)) \<noteq> Throw TypeError \<and>
   outcome (getJishokei no_coercion (reply 200 (JsonValue (Obj [(''current'', Null)])))
      constructor ''tabeta'' (Fin 1)) \<noteq> Throw TypeError \<and>
   outcome (getJishokei no_coercion (reply 200 (JsonValue (Obj [(''current'', Null)])))
      constructor ''tabeta'' (Fin 1)) \<noteq> Pending"
proof -
  have conform:
    "list_all (\<lambda>(net', s', i'). tokens_conform (timeout constructor) net')
       [(reply 200 (JsonValue (answer (Arr [tabeta]) tabeta)), ''tabeta'', Fin 0)]"
    by (simp add: tokens_conform_def parsed_body_def timer_wins_def ok_def reply_def
          answer_def constructor_def field_def token_array_def tabeta_token)
  have miss: "\<not> cache_hit constructor ''tabeta''"
    by (simp add: cache_hit_def constructor_def)
  have moving:
    "\<not> stalled (timeout constructor) (reply 200 (JsonValue (Obj [(''current'', Null)])))"
    by (simp add: stalled_def reply_def)
  from never_raises
      [of "[(reply 200 (JsonValue (answer (Arr [tabeta]) tabeta)), ''tabeta'', Fin 0)]"
          no_coercion "reply 200 (JsonValue (Obj [(''current'', Null)]))" "''tabeta''" "Fin 1"
          constructor]
    conform miss moving
  show ?thesis by auto
qed

text \<open>
  C5, as stated, fails: the invariant holds after construction, and one call breaks it.
  A 200 response with the body \<^verbatim>\<open>{"tokens": null, "current": null}\<close> makes the call store
  the sentence and \<^verbatim>\<open>null\<close> as the tokens.
\<close>

theorem null_tokens_break_invariant:
  "cache_inv constructor \<and>
   \<not> cache_inv
       (after (getJishokei no_coercion (reply 200 (JsonValue (answer Null Null)))
          constructor ''tabeta'' (Fin 0)))"
  by (simp add: cache_inv_def getJishokei_def request_def try_block_def constructor_def
        reply_def answer_def timer_wins_def ok_def after_def)

text \<open>
  C5, amended. The invariant holds after construction, and it is preserved by every
  sequence of calls, on the success path and on every failure path, in which every 2xx
  body that parses is a value with a \<^verbatim>\<open>tokens\<close> property other than \<^verbatim>\<open>null\<close>.
\<close>

theorem cache_invariant_preserved:
  "cache_inv constructor \<and>
   (cache_inv c \<and> list_all (\<lambda>(net, s, i). tokens_present (timeout c) net) calls \<longrightarrow>
      cache_inv (run co c calls))"
proof
  show "cache_inv constructor"
    by (simp add: cache_inv_def constructor_def)
  show "cache_inv c \<and> list_all (\<lambda>(net, s, i). tokens_present (timeout c) net) calls \<longrightarrow>
      cache_inv (run co c calls)"
    by (simp add: run_inv)
qed

theorem cache_invariant_preserved_witness:
  "cache_inv
     (run no_coercion constructor
        [(silence, ''nomu'', Fin 2),
         (reply 200 (JsonValue (answer (Arr [tabeta]) tabeta)), ''tabeta'', Fin 0),
         (reply 404 (JsonValue Null), ''nomu'', Fin 0),
         (reply 200 (JsonReject SyntaxError), ''nomu'', Fin 1)]) \<and>
   run no_coercion constructor
        [(silence, ''nomu'', Fin 2),
         (reply 200 (JsonValue (answer (Arr [tabeta]) tabeta)), ''tabeta'', Fin 0),
         (reply 404 (JsonValue Null), ''nomu'', Fin 0),
         (reply 200 (JsonReject SyntaxError), ''nomu'', Fin 1)] = cached_tabeta"
proof -
  have present:
    "list_all (\<lambda>(net, s, i). tokens_present (timeout constructor) net)
       [(silence, ''nomu'', Fin 2),
        (reply 200 (JsonValue (answer (Arr [tabeta]) tabeta)), ''tabeta'', Fin 0),
        (reply 404 (JsonValue Null), ''nomu'', Fin 0),
        (reply 200 (JsonReject SyntaxError), ''nomu'', Fin 1)]"
    by (simp add: tokens_present_def parsed_body_def timer_wins_def ok_def reply_def
          silence_def answer_def constructor_def)
  have inv: "cache_inv constructor"
    by (simp add: cache_inv_def constructor_def)
  have final:
    "run no_coercion constructor
        [(silence, ''nomu'', Fin 2),
         (reply 200 (JsonValue (answer (Arr [tabeta]) tabeta)), ''tabeta'', Fin 0),
         (reply 404 (JsonValue Null), ''nomu'', Fin 0),
         (reply 200 (JsonReject SyntaxError), ''nomu'', Fin 1)] = cached_tabeta"
    by (simp add: getJishokei_def request_def try_block_def constructor_def reply_def
          silence_def timer_wins_def ok_def answer_def tabeta_def make_result_def
          js_minus_def cached_tabeta_def after_def)
  from cache_invariant_preserved
      [of constructor
          "[(silence, ''nomu'', Fin 2),
            (reply 200 (JsonValue (answer (Arr [tabeta]) tabeta)), ''tabeta'', Fin 0),
            (reply 404 (JsonValue Null), ''nomu'', Fin 0),
            (reply 200 (JsonReject SyntaxError), ''nomu'', Fin 1)]" no_coercion]
    present inv final
  show ?thesis by simp
qed






text \<open>
  C8, as stated, fails: the code builds the result from whatever numbers the service
  sent. On the network path, a \<^verbatim>\<open>current\<close> with \<^verbatim>\<open>start\<close> 3 and \<^verbatim>\<open>end\<close> 1 gives the
  length \<open>- 2\<close>; one with \<^verbatim>\<open>start\<close> and \<^verbatim>\<open>end\<close> both \<^verbatim>\<open>1e999\<close>, which is infinity, gives the
  length \<^verbatim>\<open>NaN\<close>; one with \<^verbatim>\<open>start\<close> \<open>- 2\<close> gives the offset \<open>- 2\<close>. On the cache path, a
  cached token from \<open>- 2\<close> to 1 covers the cursor 0 and gives the offset \<open>- 2\<close>.
\<close>

theorem negative_length_or_offset:
  "outcome (getJishokei no_coercion (reply 200 (JsonValue (answer (Arr [inverted]) inverted)))
      constructor ''tabeta'' (Fin 0)) =
     Return (Some \<lparr>res_jishokei = Str ''taberu'', res_length = Fin (- 2),
                   res_offset = Num (Fin 3)\<rparr>) \<and>
   \<not> nonneg (Fin (- 2)) \<and>
   outcome (getJishokei no_coercion (reply 200 (JsonValue (answer (Arr [endless]) endless)))
      constructor ''tabeta'' (Fin 0)) =
     Return (Some \<lparr>res_jishokei = Str ''taberu'', res_length = NaN,
                   res_offset = Num PosInf\<rparr>) \<and>
   \<not> nonneg NaN \<and>
   outcome (getJishokei no_coercion (reply 200 (JsonValue (answer (Arr [early]) early)))
      constructor ''tabeta'' (Fin 0)) =
     Return (Some \<lparr>res_jishokei = Str ''taberu'', res_length = Fin 3,
                   res_offset = Num (Fin (- 2))\<rparr>) \<and>
   outcome (getJishokei no_coercion silence
      (constructor\<lparr>cachedSentence := Some ''tabeta'', cachedTokens := Arr [early]\<rparr>)
      ''tabeta'' (Fin 0)) =
     Return (Some \<lparr>res_jishokei = Str ''taberu'', res_length = Fin 3,
                   res_offset = Num (Fin (- 2))\<rparr>)"
  by (simp add: getJishokei_def request_def try_block_def findTokenAtCursor_def
        constructor_def reply_def timer_wins_def ok_def answer_def inverted_def endless_def
        early_def make_result_def js_minus_def le_cursor_def cursor_lt_def dle_def dlt_def
        dval_def outcome_def dsub_examples nonneg_simps)

text \<open>
  C8, amended. On the cache path, with an array of tokens cached, every result other than
  \<^verbatim>\<open>null\<close> has a length that is at least 0, and an offset that is at least 0 when the
  \<^verbatim>\<open>start\<close> of the token that covers the cursor is. On the network path, every result
  other than \<^verbatim>\<open>null\<close> has length and offset at least 0 when the \<^verbatim>\<open>current\<close> of the response
  is a token with \<^verbatim>\<open>0 <= start <= end\<close> whose \<^verbatim>\<open>start\<close> is not infinite.
\<close>

theorem result_not_negative:
  "(cachedSentence c = Some sentence \<and> cachedTokens c = Arr vs \<and> list_all is_token vs \<and>
    outcome (getJishokei co net c sentence cursorIndex) = Return (Some res) \<longrightarrow>
      nonneg (res_length res) \<and>
      (\<forall>t. find (covers cursorIndex) vs = Some t \<and> nonneg (num_field t ''start'') \<longrightarrow>
         (\<exists>a. res_offset res = Num a \<and> nonneg a))) \<and>
   (\<not> cache_hit c sentence \<and> parsed_body (timeout c) net = Some data \<and>
    is_token (field data ''current'') \<and>
    nonneg (num_field (field data ''current'') ''start'') \<and>
    dle (num_field (field data ''current'') ''start'')
      (num_field (field data ''current'') ''end'') \<and>
    num_field (field data ''current'') ''start'' \<noteq> PosInf \<and>
    outcome (getJishokei co net c sentence cursorIndex) = Return (Some res) \<longrightarrow>
      nonneg (res_length res) \<and> (\<exists>a. res_offset res = Num a \<and> nonneg a))"
proof (intro conjI impI allI)
  assume h: "cachedSentence c = Some sentence \<and> cachedTokens c = Arr vs \<and>
    list_all is_token vs \<and>
    outcome (getJishokei co net c sentence cursorIndex) = Return (Some res)"
  then have "map_option mapped (find (covers cursorIndex) vs) = Some res"
    using hit_tokens [of c sentence vs co net cursorIndex] by (auto simp: outcome_def)
  then obtain t where t: "find (covers cursorIndex) vs = Some t" and res: "res = mapped t"
    by auto
  from h t have "covers cursorIndex t"
    by (auto dest: find_token)
  then have "nonneg (dsub (num_field t ''end'') (num_field t ''start''))"
    by (auto simp: covers_def intro: covering_span)
  with res show "nonneg (res_length res)"
    by (simp add: mapped_def)
  show "\<exists>a. res_offset res = Num a \<and> nonneg a"
    if "find (covers cursorIndex) vs = Some u \<and> nonneg (num_field u ''start'')" for u
    using that t res by (simp add: mapped_def)
next
  assume h: "\<not> cache_hit c sentence \<and> parsed_body (timeout c) net = Some data \<and>
    is_token (field data ''current'') \<and>
    nonneg (num_field (field data ''current'') ''start'') \<and>
    dle (num_field (field data ''current'') ''start'')
      (num_field (field data ''current'') ''end'') \<and>
    num_field (field data ''current'') ''start'' \<noteq> PosInf \<and>
    outcome (getJishokei co net c sentence cursorIndex) = Return (Some res)"
  define cur where "cur = field data ''current''"
  from h have tok: "is_token cur" by (simp add: cur_def)
  then have "cur \<noteq> Undefined"
    by (auto simp: is_token_def is_num_def field_def)
  then obtain ts where props: "get_prop data ''tokens'' = Inr ts"
    "get_prop data ''current'' = Inr cur"
    by (cases data) (auto simp: cur_def field_def)
  from tok have "cur \<noteq> Null" "make_result co cur = Inr (mapped cur)"
    by (simp_all add: is_token_props make_result_token)
  moreover from h have miss: "\<not> cache_hit c sentence"
    and body: "parsed_body (timeout c) net = Some data"
    and out: "outcome (getJishokei co net c sentence cursorIndex) = Return (Some res)"
    by simp_all
  ultimately have res: "res = mapped cur"
    using request_body_result(1) [OF body props, of co sentence cursorIndex]
    by (simp add: miss_request)
  from h have "nonneg (dsub (num_field cur ''end'') (num_field cur ''start''))"
    by (simp add: cur_def ordered_span)
  with res show "nonneg (res_length res)"
    by (simp add: mapped_def)
  from h res show "\<exists>a. res_offset res = Num a \<and> nonneg a"
    by (simp add: mapped_def cur_def)
qed

theorem result_not_negative_witness:
  "outcome (getJishokei no_coercion silence cached_tabeta ''tabeta'' (Fin 1)) =
     Return (Some \<lparr>res_jishokei = Str ''taberu'', res_length = Fin 3,
                   res_offset = Num (Fin 0)\<rparr>) \<and>
   outcome (getJishokei no_coercion (reply 200 (JsonValue (answer (Arr [tabeta]) tabeta)))
      constructor ''tabeta'' (Fin 0)) =
     Return (Some \<lparr>res_jishokei = Str ''taberu'', res_length = Fin 3,
                   res_offset = Num (Fin 0)\<rparr>) \<and>
   nonneg (Fin 3) \<and> nonneg (Fin 0)"
proof -
  let ?res = "\<lparr>res_jishokei = Str ''taberu'', res_length = Fin 3, res_offset = Num (Fin 0)\<rparr>"
  have hit: "cachedSentence cached_tabeta = Some ''tabeta''"
    "cachedTokens cached_tabeta = Arr [tabeta]" "list_all is_token [tabeta]"
    by (simp_all add: cached_tabeta_def tabeta_token)
  then have out1:
    "outcome (getJishokei no_coercion silence cached_tabeta ''tabeta'' (Fin 1)) =
       Return (Some ?res)"
    by (simp add: hit_tokens outcome_def covers_tabeta mapped_tabeta)
  have out2:
    "outcome (getJishokei no_coercion (reply 200 (JsonValue (answer (Arr [tabeta]) tabeta)))
       constructor ''tabeta'' (Fin 0)) = Return (Some ?res)"
    by (simp add: example_first_call outcome_def)
  have miss: "\<not> cache_hit constructor ''tabeta''"
    by (simp add: cache_hit_def constructor_def)
  have body: "parsed_body (timeout constructor)
      (reply 200 (JsonValue (answer (Arr [tabeta]) tabeta))) =
      Some (answer (Arr [tabeta]) tabeta)"
    by (simp add: parsed_body_def timer_wins_def ok_def reply_def constructor_def)
  have cur: "field (answer (Arr [tabeta]) tabeta) ''current'' = tabeta"
    by (simp add: field_def answer_def)
  have span: "num_field tabeta ''start'' = Fin 0" "num_field tabeta ''end'' = Fin 3"
    by (simp_all add: num_field_def field_def tabeta_def)
  have order: "nonneg (Fin 0)" "dle (Fin 0) (Fin 3)" "find (covers (Fin 1)) [tabeta] = Some tabeta"
    by (simp_all add: nonneg_simps dle_def dlt_def dval_def covers_tabeta)
  from result_not_negative
      [of cached_tabeta "''tabeta''" "[tabeta]" no_coercion silence "Fin 1" ?res
          "answer (Arr [tabeta]) tabeta"]
    hit out1 order span
  have one: "nonneg (Fin 3) \<and> nonneg (Fin 0)"
    by simp
  from result_not_negative
      [of constructor "''tabeta''" "[tabeta]" no_coercion
          "reply 200 (JsonValue (answer (Arr [tabeta]) tabeta))" "Fin 0" ?res
          "answer (Arr [tabeta]) tabeta"]
    miss body cur span order tabeta_token out2
  have two: "nonneg (Fin 3) \<and> nonneg (Fin 0)"
    by simp
  from out1 out2 one two show ?thesis by simp
qed

text \<open>
  C9, as stated, fails: a call can set \<^verbatim>\<open>_cachedTokens\<close> back to \<^verbatim>\<open>null\<close> after the cache
  has been populated. With \<^verbatim>\<open>tabeta\<close> cached, a call for another sentence that meets a 200
  response with the body \<^verbatim>\<open>{"tokens": null, "current": null}\<close> stores \<^verbatim>\<open>null\<close> as the tokens.
\<close>

theorem tokens_return_to_null:
  "populated cached_tabeta \<and>
   cachedTokens
     (after (getJishokei no_coercion (reply 200 (JsonValue (answer Null Null)))
        cached_tabeta ''nomu'' (Fin 0))) = Null"
  by (simp add: populated_def getJishokei_def request_def try_block_def cached_tabeta_def
        constructor_def reply_def answer_def timer_wins_def ok_def after_def)

text \<open>
  C9, amended. No call ever sets \<^verbatim>\<open>_cachedSentence\<close> back to \<^verbatim>\<open>null\<close>, so a populated
  cache never returns to the state in which both fields are \<^verbatim>\<open>null\<close>. Along every
  sequence of calls in which every 2xx body that parses is a value with a \<^verbatim>\<open>tokens\<close>
  property other than \<^verbatim>\<open>null\<close>, a populated cache stays populated, and each such call
  either leaves the client as it was or replaces both fields, by its sentence and by the
  \<^verbatim>\<open>tokens\<close> of the body of its own 2xx response.
\<close>

theorem populated_stays_populated:
  "(cachedSentence c \<noteq> None \<longrightarrow> cachedSentence (run co c calls) \<noteq> None) \<and>
   (populated c \<and> list_all (\<lambda>(net, s, i). tokens_present (timeout c) net) calls \<longrightarrow>
      populated (run co c calls)) \<and>
   (tokens_present (timeout c) net \<longrightarrow>
      after (getJishokei co net c sentence cursorIndex) = c \<or>
      (\<exists>data ts. parsed_body (timeout c) net = Some data \<and>
         get_prop data ''tokens'' = Inr ts \<and> ts \<noteq> Null \<and>
         after (getJishokei co net c sentence cursorIndex) =
           c\<lparr>cachedSentence := Some sentence, cachedTokens := ts\<rparr>))"
proof (intro conjI impI)
  assume "cachedSentence c \<noteq> None"
  then show "cachedSentence (run co c calls) \<noteq> None"
    by (rule run_sentence)
next
  assume "populated c \<and> list_all (\<lambda>(net, s, i). tokens_present (timeout c) net) calls"
  then show "populated (run co c calls)"
    by (simp add: run_populated)
next
  assume "tokens_present (timeout c) net"
  then show "after (getJishokei co net c sentence cursorIndex) = c \<or>
      (\<exists>data ts. parsed_body (timeout c) net = Some data \<and>
         get_prop data ''tokens'' = Inr ts \<and> ts \<noteq> Null \<and>
         after (getJishokei co net c sentence cursorIndex) =
           c\<lparr>cachedSentence := Some sentence, cachedTokens := ts\<rparr>)"
    by (rule call_present)
qed

theorem populated_stays_populated_witness:
  "populated
     (run no_coercion cached_tabeta
        [(reply 200 (JsonValue (answer (Arr []) Null)), ''nomu'', Fin 0),
         (silence, ''tabeta'', Fin 0)]) \<and>
   cachedSentence
     (run no_coercion cached_tabeta
        [(reply 200 (JsonValue (answer (Arr []) Null)), ''nomu'', Fin 0),
         (silence, ''tabeta'', Fin 0)]) = Some ''nomu''"
proof -
  have pop: "populated cached_tabeta" and sen: "cachedSentence cached_tabeta \<noteq> None"
    by (simp_all add: populated_def cached_tabeta_def constructor_def)
  have present:
    "list_all (\<lambda>(net, s, i). tokens_present (timeout cached_tabeta) net)
       [(reply 200 (JsonValue (answer (Arr []) Null)), ''nomu'', Fin 0),
        (silence, ''tabeta'', Fin 0)]"
    "tokens_present (timeout cached_tabeta) silence"
    by (simp_all add: tokens_present_def parsed_body_def timer_wins_def ok_def reply_def
          silence_def answer_def cached_tabeta_def constructor_def)
  have final:
    "cachedSentence
       (run no_coercion cached_tabeta
          [(reply 200 (JsonValue (answer (Arr []) Null)), ''nomu'', Fin 0),
           (silence, ''tabeta'', Fin 0)]) = Some ''nomu''"
    by (simp add: getJishokei_def request_def try_block_def cached_tabeta_def
          constructor_def reply_def silence_def timer_wins_def ok_def answer_def after_def)
  from populated_stays_populated
      [of cached_tabeta no_coercion
          "[(reply 200 (JsonValue (answer (Arr []) Null)), ''nomu'', Fin 0),
            (silence, ''tabeta'', Fin 0)]" silence "''tabeta''" "Fin 0"]
    pop sen present final
  show ?thesis by simp
qed



end
